theory Spec2Isabelle
  imports
    Complex_Main
begin

chapter \<open>The training pipeline of py3langid: scanner, corpus indexer, feature files\<close>

text \<open>
  The development follows the modules of \<^verbatim>\<open>py3langid/train\<close>, read as Python 3, one
  function at a time. A dictionary is a map into \<^typ>\<open>'a option\<close> whose \<^const>\<open>None\<close> is
  the missing key, or an association list where the order of its keys matters; an iterator
  is the list of the items it has not yet given out; a function that can raise returns an
  option or a sum.
\<close>

section \<open>Errors\<close>

datatype error = KeyError | OverflowError | IndexError | TypeError | ValueError
  | AttributeError | NameError | FileNotFoundError

section \<open>scanner.py: the Aho-Corasick feature scanner\<close>

subsection \<open>Strings, letters and the shared alphabet\<close>

text \<open>
  A keyword or a text is a \<open>bytes\<close> object or a \<open>str\<close>. Indexing or iterating \<open>bytes\<close>
  gives integers; indexing or iterating a \<open>str\<close> gives strings of one character, here the
  character's code point. An integer and a string are never equal, so the two kinds of
  item are kept apart.
\<close>

datatype pystring = Bytes "char list" | Str "nat list"

datatype item = IntItem nat | StrItem nat

fun elements :: "pystring \<Rightarrow> item list" where
  "elements (Bytes bs) = map (\<lambda>b. IntItem (of_char b)) bs"
| "elements (Str cs) = map StrItem cs"

type_synonym state = nat
type_synonym goto_map = "state \<times> item \<rightharpoonup> state"
type_synonym fail_map = "state \<rightharpoonup> state"
type_synonym output_dict = "state \<rightharpoonup> pystring list"

text \<open>
  Line 45, in the class body: \<^verbatim>\<open>alphabet = map(chr, range(1<<8))\<close>. The value is one
  iterator over the 256 one-character strings, shared by every scanner of the process. Its
  state is the list of the letters it has not given out yet; \<open>alphabet0\<close> is the state in
  which the class statement leaves it.
\<close>

definition alphabet0 :: "item list" where
  "alphabet0 = map StrItem [0..<256]"

text \<open>
  \<^verbatim>\<open>for a in self.alphabet: body\<close>: the loop takes every letter the iterator still has and
  leaves it empty. A body that raises ends the loop; the result is then \<^const>\<open>None\<close>.
\<close>

fun fold_option :: "('a \<Rightarrow> 's \<Rightarrow> 's option) \<Rightarrow> 'a list \<Rightarrow> 's \<Rightarrow> 's option" where
  "fold_option f [] s = Some s"
| "fold_option f (x # xs) s =
     (case f x s of None \<Rightarrow> None | Some s' \<Rightarrow> fold_option f xs s')"

definition for_alphabet ::
  "(item \<Rightarrow> 's \<Rightarrow> 's option) \<Rightarrow> item list \<Rightarrow> 's \<Rightarrow> ('s \<times> item list) option" where
  "for_alphabet body alphabet s =
     (case fold_option body alphabet s of None \<Rightarrow> None | Some s' \<Rightarrow> Some (s', []))"

text \<open>
  \<^verbatim>\<open>output = defaultdict(set)\<close>: reading a key that is missing gives the empty set and
  stores it under the key. A set is a list without repetitions; the language does not fix
  the order in which a set is iterated, the model keeps the order of insertion.
\<close>

definition dd_get :: "output_dict \<Rightarrow> state \<Rightarrow> pystring list" where
  "dd_get output k = (case output k of None \<Rightarrow> [] | Some S \<Rightarrow> S)"

definition dd_touch :: "output_dict \<Rightarrow> state \<Rightarrow> output_dict" where
  "dd_touch output k = output(k \<mapsto> dd_get output k)"

subsection \<open>Algorithm 2: the goto function\<close>

text \<open>
  Lines 85-87: follow the goto edges that exist, from \<open>state\<close>, along the keyword; the
  result is the state reached and the part of the keyword not yet read (\<open>a[j:]\<close>).
\<close>

fun goto_walk :: "goto_map \<Rightarrow> state \<Rightarrow> item list \<Rightarrow> state \<times> item list" where
  "goto_walk goto state [] = (state, [])"
| "goto_walk goto state (c # cs) =
     (case goto (state, c) of
        None \<Rightarrow> (state, c # cs)
      | Some t \<Rightarrow> goto_walk goto t cs)"

text \<open>Lines 88-92: one new state for each remaining letter \<open>a[p]\<close>.\<close>

fun goto_extend :: "goto_map \<Rightarrow> nat \<Rightarrow> state \<Rightarrow> item list \<Rightarrow> goto_map \<times> nat \<times> state" where
  "goto_extend goto newstate state [] = (goto, newstate, state)"
| "goto_extend goto newstate state (c # cs) =
     goto_extend (goto((state, c) \<mapsto> Suc newstate)) (Suc newstate) (Suc newstate) cs"

text \<open>The body of \<^verbatim>\<open>for a in keywords\<close>, ending with \<^verbatim>\<open>output[state].add(a)\<close>.\<close>

definition enter ::
  "pystring \<Rightarrow> goto_map \<times> output_dict \<times> nat \<Rightarrow> goto_map \<times> output_dict \<times> nat" where
  "enter a = (\<lambda>(goto, output, newstate).
     (case goto_walk goto 0 (elements a) of (state, rest) \<Rightarrow>
       (case goto_extend goto newstate state rest of (goto', newstate', state') \<Rightarrow>
          (goto', output(state' \<mapsto> List.insert a (dd_get output state')), newstate'))))"

definition algorithm2 :: "pystring list \<Rightarrow> goto_map \<times> output_dict \<times> nat" where
  "algorithm2 keywords = fold enter keywords (Map.empty, Map.empty, 0)"

text \<open>The number of states of the automaton for a keyword list: \<open>newstate + 1\<close>.\<close>

definition num_states :: "pystring list \<Rightarrow> nat" where
  "num_states keywords = (case algorithm2 keywords of (goto0, output0, newstate) \<Rightarrow> newstate + 1)"

text \<open>
  Lines 94-96, the body for one letter: a letter without an edge from the root gets a loop
  at the root.
\<close>

definition root_loop :: "item \<Rightarrow> goto_map \<Rightarrow> goto_map option" where
  "root_loop a goto = Some (if goto (0, a) = None then goto((0, a) \<mapsto> 0) else goto)"

subsection \<open>Algorithm 3: the failure function\<close>

text \<open>
  Lines 105-107 and 125-127, the loop that Algorithms 3 and 4 share:
  \<^verbatim>\<open>while queue: r = queue.popleft(); for a in self.alphabet: body\<close>. The body works on
  the queue and on the tables \<open>tabs\<close> of the algorithm. Nothing bounds the loop: when it
  does not end, or a body raises, the result is \<^const>\<open>None\<close>.
\<close>

partial_function (option) queue_loop ::
  "(state \<Rightarrow> item \<Rightarrow> state list \<times> 's \<Rightarrow> (state list \<times> 's) option)
     \<Rightarrow> state list \<Rightarrow> 's \<Rightarrow> item list \<Rightarrow> ('s \<times> item list) option" where
  "queue_loop body queue tabs alphabet =
     (case queue of
        [] \<Rightarrow> Some (tabs, alphabet)
      | r # queue' \<Rightarrow>
         (case for_alphabet (body r) alphabet (queue', tabs) of
            None \<Rightarrow> None
          | Some ((queue'', tabs'), alphabet') \<Rightarrow> queue_loop body queue'' tabs' alphabet'))"

declare queue_loop.simps [code]

text \<open>Lines 100-104, the body for one letter.\<close>

definition fail_root ::
  "goto_map \<Rightarrow> item \<Rightarrow> state list \<times> fail_map \<Rightarrow> (state list \<times> fail_map) option" where
  "fail_root goto a = (\<lambda>(queue, fail).
     (case goto (0, a) of
        None \<Rightarrow> None
      | Some s \<Rightarrow> if s \<noteq> 0 then Some (queue @ [s], fail(s \<mapsto> 0)) else Some (queue, fail)))"

text \<open>
  Lines 112-113: \<^verbatim>\<open>while (state,a) not in goto: state = fail[state]\<close>. The loop has no
  bound of its own, and \<open>fail[state]\<close> can be missing: both are the value \<^const>\<open>None\<close>.
\<close>

partial_function (option) fail_state :: "goto_map \<Rightarrow> fail_map \<Rightarrow> item \<Rightarrow> state \<Rightarrow> state option" where
  "fail_state goto fail a state =
     (if goto (state, a) = None
      then (case fail state of None \<Rightarrow> None | Some t \<Rightarrow> fail_state goto fail a t)
      else Some state)"

declare fail_state.simps [code]

text \<open>Lines 108-117, the body of the loop of Algorithm 3 for one letter \<open>a\<close> at the state \<open>r\<close>.\<close>

definition fail_child ::
  "goto_map \<Rightarrow> state \<Rightarrow> item \<Rightarrow> state list \<times> fail_map \<times> output_dict
     \<Rightarrow> (state list \<times> fail_map \<times> output_dict) option" where
  "fail_child goto r a = (\<lambda>(queue, fail, output).
     (case goto (r, a) of
        None \<Rightarrow> Some (queue, fail, output)
      | Some s \<Rightarrow>
         (case fail r of
            None \<Rightarrow> None
          | Some fr \<Rightarrow>
             (case fail_state goto fail a fr of
                None \<Rightarrow> None
              | Some state \<Rightarrow>
                 (case goto (state, a) of
                    None \<Rightarrow> None
                  | Some t \<Rightarrow>
                     Some (queue @ [s], fail(s \<mapsto> t),
                       (if dd_get output t \<noteq> []
                        then (dd_touch output t)
                               (s \<mapsto> List.union (dd_get output s) (dd_get output t))
                        else dd_touch output t)))))))"

definition algorithm3 ::
  "goto_map \<Rightarrow> output_dict \<Rightarrow> item list \<Rightarrow> ((fail_map \<times> output_dict) \<times> item list) option" where
  "algorithm3 goto output alphabet =
     (case for_alphabet (fail_root goto) alphabet ([], Map.empty) of
        None \<Rightarrow> None
      | Some ((queue, fail), alphabet') \<Rightarrow>
          queue_loop (fail_child goto) queue (fail, output) alphabet')"

subsection \<open>Algorithm 4: the next-move function\<close>

text \<open>
  The keys of \<^verbatim>\<open>self.nextmove\<close> are pairs of a number and a letter. \<^verbatim>\<open>build\<close> uses the
  integer of a state, \<^verbatim>\<open>__setstate__\<close> the quotient \<open>i / 256\<close>, a float; a float and an
  integer of the same value are the same key, so the number is a rational.
\<close>

type_synonym nextmove_map = "rat \<times> item \<rightharpoonup> nat"

text \<open>Lines 121-124, the body for one letter.\<close>

definition nextmove_root ::
  "goto_map \<Rightarrow> item \<Rightarrow> state list \<times> nextmove_map \<Rightarrow> (state list \<times> nextmove_map) option" where
  "nextmove_root goto a = (\<lambda>(queue, nm).
     (case goto (0, a) of
        None \<Rightarrow> None
      | Some s \<Rightarrow> Some (if s \<noteq> 0 then queue @ [s] else queue, nm((0, a) \<mapsto> s))))"

text \<open>Lines 128-133, the body of the loop of Algorithm 4 for one letter \<open>a\<close> at the state \<open>r\<close>.\<close>

definition nextmove_child ::
  "goto_map \<Rightarrow> fail_map \<Rightarrow> state \<Rightarrow> item \<Rightarrow> state list \<times> nextmove_map
     \<Rightarrow> (state list \<times> nextmove_map) option" where
  "nextmove_child goto fail r a = (\<lambda>(queue, nm).
     (case goto (r, a) of
        Some s \<Rightarrow> Some (queue @ [s], nm((of_nat r, a) \<mapsto> s))
      | None \<Rightarrow>
         (case fail r of
            None \<Rightarrow> None
          | Some fr \<Rightarrow>
             (case nm (of_nat fr, a) of
                None \<Rightarrow> None
              | Some t \<Rightarrow> Some (queue, nm((of_nat r, a) \<mapsto> t))))))"

definition algorithm4 ::
  "goto_map \<Rightarrow> fail_map \<Rightarrow> item list \<Rightarrow> (nextmove_map \<times> item list) option" where
  "algorithm4 goto fail alphabet =
     (case for_alphabet (nextmove_root goto) alphabet ([], Map.empty) of
        None \<Rightarrow> None
      | Some ((queue, nm), alphabet') \<Rightarrow>
          queue_loop (nextmove_child goto fail) queue nm alphabet')"

subsection \<open>The compiled scanner\<close>

text \<open>
  \<^verbatim>\<open>array.array(typecode, ...)\<close>: \<open>'H'\<close> holds unsigned 16-bit cells; \<open>'L'\<close> is the C
  \<open>unsigned long\<close>, 64 bits on the 64-bit Unix platforms. A value that does not fit raises
  \<open>OverflowError\<close>.
\<close>

datatype typecode = Typecode_H | Typecode_L

fun typecode_limit :: "typecode \<Rightarrow> nat" where
  "typecode_limit Typecode_H = 2 ^ 16"
| "typecode_limit Typecode_L = 2 ^ 64"

text \<open>
  Lines 143-149. The array is filled from the generator \<^verbatim>\<open>nextstate_iter\<close>:
  \<^verbatim>\<open>for state in range(newstate+1): for letter in self.alphabet: yield
  self.nextmove[(state, letter)]\<close>. The inner loop reads the shared iterator, so the first
  state takes all the letters that are left. A key that is missing, or a value that does
  not fit the cell, ends the filling with that error; the letters taken so far are gone.
\<close>

fun fill_letters ::
  "nat \<Rightarrow> nextmove_map \<Rightarrow> state \<Rightarrow> item list \<Rightarrow> nat list \<Rightarrow> (error + nat list) \<times> item list" where
  "fill_letters limit nm state [] cells = (Inr cells, [])"
| "fill_letters limit nm state (letter # alphabet) cells =
     (case nm (of_nat state, letter) of
        None \<Rightarrow> (Inl KeyError, alphabet)
      | Some v \<Rightarrow>
         (if v < limit then fill_letters limit nm state alphabet (cells @ [v])
          else (Inl OverflowError, alphabet)))"

fun fill_states ::
  "nat \<Rightarrow> nextmove_map \<Rightarrow> state list \<Rightarrow> item list \<Rightarrow> nat list \<Rightarrow> (error + nat list) \<times> item list" where
  "fill_states limit nm [] alphabet cells = (Inr cells, alphabet)"
| "fill_states limit nm (state # states) alphabet cells =
     (case fill_letters limit nm state alphabet cells of
        (Inl e, alphabet') \<Rightarrow> (Inl e, alphabet')
      | (Inr cells', alphabet') \<Rightarrow> fill_states limit nm states alphabet' cells')"

definition generate_nm_arr ::
  "nextmove_map \<Rightarrow> nat \<Rightarrow> typecode \<Rightarrow> item list \<Rightarrow> (error + typecode \<times> nat list) \<times> item list" where
  "generate_nm_arr nm newstate tc alphabet =
     (case fill_states (typecode_limit tc) nm [0..<newstate + 1] alphabet [] of
        (Inl e, alphabet') \<Rightarrow> (Inl e, alphabet')
      | (Inr cells, alphabet') \<Rightarrow> (Inr (tc, cells), alphabet'))"

text \<open>Lines 150-154: \<open>'H'\<close> first, and \<open>'L'\<close> when that raised \<open>OverflowError\<close>.\<close>

definition try_nm_arr ::
  "nextmove_map \<Rightarrow> nat \<Rightarrow> item list \<Rightarrow> ((typecode \<times> nat list) \<times> item list) option" where
  "try_nm_arr nm newstate alphabet =
     (case generate_nm_arr nm newstate Typecode_H alphabet of
        (Inr arr, alphabet') \<Rightarrow> Some (arr, alphabet')
      | (Inl e, alphabet') \<Rightarrow>
         (if e = OverflowError
          then (case generate_nm_arr nm newstate Typecode_L alphabet' of
                  (Inr arr, alphabet'') \<Rightarrow> Some (arr, alphabet'')
                | (Inl e', alphabet'') \<Rightarrow> None)
          else None))"

text \<open>
  The attributes of a scanner; \<^verbatim>\<open>self.output\<close> is the field \<open>outputs\<close>, a dictionary from
  a state to the tuple of its keywords.
\<close>

record scanner =
  nextmove :: nextmove_map
  outputs :: "state \<rightharpoonup> pystring list"
  nm_arr :: "typecode \<times> nat list"

text \<open>
  \<^verbatim>\<open>Scanner.build\<close>, from the state of the shared alphabet and the keywords to the
  completed goto function of lines 94-96, the scanner and the new state of the alphabet.
  The result is \<^const>\<open>None\<close> when the method does not return: an exception leaves it, or
  a loop does not end.
\<close>

definition build :: "item list \<Rightarrow> pystring list \<Rightarrow> (goto_map \<times> scanner \<times> item list) option" where
  "build alphabet keywords =
     (case algorithm2 keywords of (goto0, output0, newstate) \<Rightarrow>
       (case for_alphabet root_loop alphabet goto0 of
          None \<Rightarrow> None
        | Some (goto, alphabet1) \<Rightarrow>
           (case algorithm3 goto output0 alphabet1 of
              None \<Rightarrow> None
            | Some ((fail, output1), alphabet2) \<Rightarrow>
               (case algorithm4 goto fail alphabet2 of
                  None \<Rightarrow> None
                | Some (nm, alphabet3) \<Rightarrow>
                   (case try_nm_arr nm newstate alphabet3 of
                      None \<Rightarrow> None
                    | Some (arr, alphabet4) \<Rightarrow>
                       Some (goto, \<lparr>nextmove = nm, outputs = output1, nm_arr = arr\<rparr>,
                             alphabet4))))))"

text \<open>The scanner that \<^verbatim>\<open>Scanner(keywords)\<close> gives.\<close>

definition built_scanner :: "item list \<Rightarrow> pystring list \<Rightarrow> scanner option" where
  "built_scanner alphabet keywords =
     (case build alphabet keywords of None \<Rightarrow> None | Some (goto, self, alphabet') \<Rightarrow> Some self)"

text \<open>\<^verbatim>\<open>__getstate__\<close> and \<^verbatim>\<open>__setstate__\<close>; \<open>i / 256\<close> is the true division.\<close>

definition getstate :: "scanner \<Rightarrow> (typecode \<times> nat list) \<times> (state \<rightharpoonup> pystring list)" where
  "getstate self = (nm_arr self, outputs self)"

definition setstate :: "(typecode \<times> nat list) \<times> (state \<rightharpoonup> pystring list) \<Rightarrow> scanner" where
  "setstate v = (case v of (nm_array, output') \<Rightarrow>
     \<lparr>nextmove =
        fold (\<lambda>(i, next_state) nm. nm((of_nat i / 256, StrItem (i mod 256)) \<mapsto> next_state))
          (enumerate 0 (snd nm_array)) Map.empty,
      outputs = output',
      nm_arr = nm_array\<rparr>)"

text \<open>
  \<^verbatim>\<open>search\<close> is a generator: its result is the list of the keys it yields and the error
  that ended it, if one did. \<^verbatim>\<open>map(ord, string)\<close> is lazy: on a \<open>str\<close> it gives the code
  points one by one; on \<open>bytes\<close> the items are integers and \<open>ord\<close> raises \<open>TypeError\<close> at
  the first of them. Reading the array past its end raises \<open>IndexError\<close>.
\<close>

fun search_letters :: "scanner \<Rightarrow> state \<Rightarrow> nat list \<Rightarrow> pystring list \<times> error option" where
  "search_letters self state [] = ([], None)"
| "search_letters self state (letter # letters) =
     (let i = push_bit 8 state + letter in
      if i < length (snd (nm_arr self))
      then (let state' = snd (nm_arr self) ! i in
            (case search_letters self state' letters of (ys, e) \<Rightarrow>
               ((case outputs self state' of None \<Rightarrow> [] | Some keys \<Rightarrow> keys) @ ys, e)))
      else ([], Some IndexError))"

fun search :: "scanner \<Rightarrow> pystring \<Rightarrow> pystring list \<times> error option" where
  "search self (Str cs) = search_letters self 0 cs"
| "search self (Bytes bs) = (if bs = [] then ([], None) else ([], Some TypeError))"

text \<open>\<^verbatim>\<open>Scanner(keywords).search(string)\<close>, the keys collected.\<close>

definition scan :: "item list \<Rightarrow> pystring list \<Rightarrow> pystring \<Rightarrow> (pystring list \<times> error option) option" where
  "scan alphabet keywords string =
     (case built_scanner alphabet keywords of
        None \<Rightarrow> None
      | Some self \<Rightarrow> Some (search self string))"

text \<open>How often a key is yielded.\<close>

definition yield_count :: "pystring list \<times> error option \<Rightarrow> pystring \<Rightarrow> nat" where
  "yield_count r k = count_list (fst r) k"

text \<open>
  The number of occurrences of \<open>k\<close> in \<open>B\<close>, overlapping ones included: the positions
  \<open>i\<close> of \<open>B\<close> with \<open>B[i:i+|k|] = k\<close>.
\<close>

definition occurrences :: "'a list \<Rightarrow> 'a list \<Rightarrow> nat" where
  "occurrences k B = length (filter (\<lambda>i. take (length k) (drop i B) = k) [0..<length B])"

section \<open>common.py: feature files and the task mapper\<close>

subsection \<open>Feature files\<close>

text \<open>
  The files of the machine: a path has a text or does not exist. An open text file is the
  text that has not been read yet and the flag \<open>closed\<close>.
\<close>

type_synonym filesystem = "string \<rightharpoonup> string"

record textfile =
  unread :: string
  closed :: bool

text \<open>
  The next line of a text, with its line end, and the rest of the text. A file opened by
  \<^verbatim>\<open>open(path)\<close> reads \<open>\n\<close>, \<open>\r\<close> and \<open>\r\n\<close> as line ends and gives each as \<open>\n\<close>.
\<close>

fun readline :: "string \<Rightarrow> string \<times> string" where
  "readline [] = ([], [])"
| "readline (c # cs) =
     (if c = CHR 0x0A then ([CHR 0x0A], cs)
      else if c = CHR 0x0D
      then (case cs of
              [] \<Rightarrow> ([CHR 0x0A], [])
            | c' # cs' \<Rightarrow> if c' = CHR 0x0A then ([CHR 0x0A], cs') else ([CHR 0x0A], cs))
      else (case readline cs of (line, rest) \<Rightarrow> (c # line, rest)))"

text \<open>
  \<^verbatim>\<open>next(f)\<close> for a text file: \<open>ValueError\<close> when the file is closed; at the end of the
  text the iteration stops, the value \<^const>\<open>None\<close>; otherwise the next line.
\<close>

definition file_next :: "textfile \<Rightarrow> error + (string option \<times> textfile)" where
  "file_next f =
     (if closed f then Inl ValueError
      else if unread f = [] then Inr (None, f)
      else (case readline (unread f) of (line, rest) \<Rightarrow> Inr (Some line, f\<lparr>unread := rest\<rparr>)))"

text \<open>
  \<^verbatim>\<open>map(fn, f)\<close> does not read the file: it is an object that holds \<open>fn\<close> and the file,
  and reads a line each time an item is asked for.
\<close>

datatype 'a map_object = MapObject "string \<Rightarrow> error + 'a" textfile

text \<open>Taking all the items of a map object, as \<^verbatim>\<open>list(m)\<close> or a \<^verbatim>\<open>for\<close> loop does.\<close>

function consume :: "(string \<Rightarrow> error + 'a) \<Rightarrow> textfile \<Rightarrow> error + 'a list" where
  "consume fn f =
     (case file_next f of
        Inl e \<Rightarrow> Inl e
      | Inr (None, f') \<Rightarrow> Inr []
      | Inr (Some line, f') \<Rightarrow>
         (case fn line of
            Inl e \<Rightarrow> Inl e
          | Inr x \<Rightarrow>
             (case consume fn f' of
                Inl e \<Rightarrow> Inl e
              | Inr xs \<Rightarrow> Inr (x # xs))))"
  by pat_completeness auto

termination consume
proof (relation "measure (\<lambda>(fn, f). length (unread f))")
  show "wf (measure (\<lambda>(fn :: string \<Rightarrow> error + 'a, f). length (unread f)))"
    by simp
next
  fix fn :: "string \<Rightarrow> error + 'a" and f :: textfile and r y line f' x
  assume a: "file_next f = Inr r" "(y, f') = r" "y = Some line"
  have shorter: "t \<noteq> [] \<Longrightarrow> length (snd (readline t)) < length t" for t
  proof (induction t rule: readline.induct)
    case 1
    then show ?case by simp
  next
    case (2 c cs)
    show ?case
    proof (cases "c = CHR 0x0A \<or> c = CHR 0x0D")
      case True
      then show ?thesis by (cases cs) auto
    next
      case False
      show ?thesis
      proof (cases cs)
        case Nil
        with False show ?thesis by simp
      next
        case (Cons a as)
        with 2 False have "length (snd (readline cs)) < length cs" by simp
        with False show ?thesis by (cases "readline cs") simp
      qed
    qed
  qed
  from a have "unread f \<noteq> [] \<and> unread f' = snd (readline (unread f))"
    by (cases "readline (unread f)") (auto simp: file_next_def split: if_splits)
  with shorter[of "unread f"] show "((fn, f'), (fn, f)) \<in> measure (\<lambda>(fn, f). length (unread f))"
    by simp
qed

fun list_of :: "'a map_object \<Rightarrow> error + 'a list" where
  "list_of (MapObject fn f) = consume fn f"

text \<open>
  \<^verbatim>\<open>write_features\<close>: the file is opened for writing, which empties it, and each feature
  is printed as its \<open>repr\<close> and a line end. The builtin \<open>repr\<close> is a parameter.
\<close>

definition write_features :: "('a \<Rightarrow> string) \<Rightarrow> 'a list \<Rightarrow> string \<Rightarrow> filesystem \<Rightarrow> filesystem" where
  "write_features repr features path fs =
     fs(path \<mapsto> fold (\<lambda>feat text. text @ repr feat @ [CHR 0x0A]) features [])"

text \<open>
  \<^verbatim>\<open>read_features\<close>: \<^verbatim>\<open>with open(path) as f: return map(eval, f)\<close>. The value returned is
  the map object over \<open>f\<close>; leaving the \<^verbatim>\<open>with\<close> block closes \<open>f\<close>, the file that the
  map object holds. The builtin \<open>eval\<close> is a parameter.
\<close>

definition read_features ::
  "(string \<Rightarrow> error + 'a) \<Rightarrow> string \<Rightarrow> filesystem \<Rightarrow> error + 'a map_object" where
  "read_features eval path fs =
     (case fs path of
        None \<Rightarrow> Inl FileNotFoundError
      | Some text \<Rightarrow>
         (let f = \<lparr>unread = text, closed = False\<rparr>
          in Inr (MapObject eval (f\<lparr>closed := True\<rparr>))))"

text \<open>Writing features to a path, reading the path back and taking the features read.\<close>

definition features_round_trip ::
  "('a \<Rightarrow> string) \<Rightarrow> (string \<Rightarrow> error + 'a) \<Rightarrow> 'a list \<Rightarrow> string \<Rightarrow> filesystem
     \<Rightarrow> error + 'a list" where
  "features_round_trip repr eval features path fs =
     (case read_features eval path (write_features repr features path fs) of
        Inl e \<Rightarrow> Inl e
      | Inr m \<Rightarrow> list_of m)"

subsection \<open>MapPool\<close>

text \<open>
  What \<^verbatim>\<open>MapPool\<close> yields: the function of a pool of worker processes, with the size of
  the pool, its \<open>maxtasksperchild\<close> and the chunk size, or the sequential \<open>imap\<close>.
\<close>

datatype mapper = PoolImapUnordered nat "nat option" nat | SequentialImap

text \<open>
  Line 14: \<^verbatim>\<open>from itertools import imap, islice\<close>. The module \<open>itertools\<close> of Python 3 has
  no \<open>imap\<close>, so the name is bound to nothing.
\<close>

definition imap :: "mapper option" where
  "imap = None"

text \<open>
  \<^verbatim>\<open>MapPool\<close> up to its \<^verbatim>\<open>yield\<close>, on a machine of \<open>cpu_count\<close> processors: the mapper
  it yields and the state of the calling process, which only the initializer changes when
  it is called there. \<^verbatim>\<open>initializer(*initargs)\<close> with \<open>initargs\<close> left out raises
  \<open>TypeError\<close>.
\<close>

definition MapPool ::
  "nat \<Rightarrow> int option \<Rightarrow> ('args \<Rightarrow> 'st \<Rightarrow> 'st) option \<Rightarrow> 'args option \<Rightarrow> nat option \<Rightarrow> nat \<Rightarrow> 'st
     \<Rightarrow> error + (mapper \<times> 'st)" where
  "MapPool cpu_count processes initializer initargs maxtasksperchild chunksize st =
     (let processes = (case processes of None \<Rightarrow> int cpu_count + 4 | Some p \<Rightarrow> p)
      in if processes > 1
         then Inr (PoolImapUnordered (nat processes) maxtasksperchild chunksize, st)
         else (case (case initializer of
                       None \<Rightarrow> Inr st
                     | Some init \<Rightarrow>
                        (case initargs of None \<Rightarrow> Inl TypeError | Some args \<Rightarrow> Inr (init args st)))
               of Inl e \<Rightarrow> Inl e
                | Inr st' \<Rightarrow> (case imap of None \<Rightarrow> Inl NameError | Some f \<Rightarrow> Inr (f, st'))))"

section \<open>index.py: the corpus indexer\<close>

subsection \<open>Paths\<close>

text \<open>\<^verbatim>\<open>os.path.split\<close> and \<^verbatim>\<open>os.path.join\<close> of two parts, as \<open>posixpath\<close> has them.\<close>

definition path_split :: "string \<Rightarrow> string \<times> string" where
  "path_split p =
     (let tail = rev (takeWhile (\<lambda>c. c \<noteq> CHR ''/'') (rev p));
          head = rev (dropWhile (\<lambda>c. c \<noteq> CHR ''/'') (rev p))
      in (if filter (\<lambda>c. c \<noteq> CHR ''/'') head \<noteq> []
          then rev (dropWhile (\<lambda>c. c = CHR ''/'') (rev head))
          else head,
          tail))"

definition path_join :: "string \<Rightarrow> string \<Rightarrow> string" where
  "path_join a b =
     (if take 1 b = ''/'' then b
      else if a = [] \<or> take 1 (rev a) = ''/'' then a @ b
      else a @ ''/'' @ b)"

subsection \<open>Dictionaries\<close>

text \<open>
  A dictionary whose order matters is the list of its entries in the order in which the
  keys were first set. \<^verbatim>\<open>d[k] = v\<close>:
\<close>

fun dict_set :: "('k \<times> 'v) list \<Rightarrow> 'k \<Rightarrow> 'v \<Rightarrow> ('k \<times> 'v) list" where
  "dict_set [] k v = [(k, v)]"
| "dict_set ((k', v') # kvs) k v =
     (if k' = k then (k, v) # kvs else (k', v') # dict_set kvs k v)"

text \<open>
  The three kinds of value that \<^verbatim>\<open>lang_index\<close> and \<^verbatim>\<open>domain_index\<close> can hold:
  \<^verbatim>\<open>defaultdict(Enumerator())\<close>, with the number that the enumerator gives next;
  a \<^verbatim>\<open>dict\<close>; and the value of \<^verbatim>\<open>{(k,v) for v,k in enumerate(langs)}\<close>, which is a
  set of pairs.
\<close>

datatype index_map =
    DefaultDict "(string \<times> nat) list" nat
  | Dict "(string \<times> nat) list"
  | PairSet "(string \<times> nat) set"

text \<open>
  \<^verbatim>\<open>index[key]\<close>, with the index as the lookup leaves it: a default dictionary enters a
  missing key with the next number; a dictionary raises \<open>KeyError\<close>; a set cannot be
  subscripted and raises \<open>TypeError\<close>.
\<close>

fun getitem :: "index_map \<Rightarrow> string \<Rightarrow> error + (nat \<times> index_map)" where
  "getitem (DefaultDict kvs n) key =
     (case map_of kvs key of
        Some v \<Rightarrow> Inr (v, DefaultDict kvs n)
      | None \<Rightarrow> Inr (n, DefaultDict (kvs @ [(key, n)]) (n + 1)))"
| "getitem (Dict kvs) key =
     (case map_of kvs key of
        Some v \<Rightarrow> Inr (v, Dict kvs)
      | None \<Rightarrow> Inl KeyError)"
| "getitem (PairSet S) key = Inl TypeError"

text \<open>\<^verbatim>\<open>index.items()\<close>; a set has no such method.\<close>

fun index_items :: "index_map \<Rightarrow> error + (string \<times> nat) list" where
  "index_items (DefaultDict kvs n) = Inr kvs"
| "index_items (Dict kvs) = Inr kvs"
| "index_items (PairSet S) = Inl AttributeError"

text \<open>Lines 84-94: the two indexes at the start.\<close>

definition new_lang_index :: "string list option \<Rightarrow> index_map" where
  "new_lang_index langs =
     (case langs of
        None \<Rightarrow> DefaultDict [] 0
      | Some ls \<Rightarrow> PairSet ((\<lambda>(v, k). (k, v)) ` set (enumerate 0 ls)))"

definition new_domain_index :: "string list option \<Rightarrow> index_map" where
  "new_domain_index domains =
     (case domains of
        None \<Rightarrow> DefaultDict [] 0
      | Some ds \<Rightarrow> Dict (fold (\<lambda>(v, k) d. dict_set d k v) (enumerate 0 ds) []))"

subsection \<open>The indexer\<close>

text \<open>
  \<^verbatim>\<open>coverage_index\<close> is a \<^verbatim>\<open>defaultdict(set)\<close> from a domain to its languages; a set is
  a list without repetitions. \<^verbatim>\<open>items\<close> holds \<open>(domain_id, lang_id, docname, path)\<close>.
\<close>

record indexer =
  root :: string
  min_domain :: int
  proportion :: real
  lang_index :: index_map
  domain_index :: index_map
  coverage_index :: "(string \<times> string list) list"
  items :: "(nat \<times> nat \<times> string \<times> string) list"

text \<open>\<^verbatim>\<open>self.coverage_index[domain].add(lang)\<close>\<close>

fun coverage_add ::
  "(string \<times> string list) list \<Rightarrow> string \<Rightarrow> string \<Rightarrow> (string \<times> string list) list" where
  "coverage_add [] domain lang = [(domain, [lang])]"
| "coverage_add ((d, ls) # cov) domain lang =
     (if d = domain then (d, if lang \<in> set ls then ls else ls @ [lang]) # cov
      else (d, ls) # coverage_add cov domain lang)"

text \<open>A loop whose body can raise: the first error ends it.\<close>

fun fold_result :: "('a \<Rightarrow> 's \<Rightarrow> error + 's) \<Rightarrow> 'a list \<Rightarrow> 's \<Rightarrow> error + 's" where
  "fold_result f [] s = Inr s"
| "fold_result f (x # xs) s =
     (case f x s of Inl e \<Rightarrow> Inl e | Inr s' \<Rightarrow> fold_result f xs s')"

text \<open>
  Lines 107-130, the body of the loop for one file of the directory \<open>dirpath\<close>. The file
  comes with the number that \<^verbatim>\<open>random.random()\<close> gives for it. Only \<open>KeyError\<close> is
  caught; the domain is looked up first, and what that lookup entered stays when the
  lookup of the language raises.
\<close>

definition index_doc :: "string \<Rightarrow> string \<times> real \<Rightarrow> indexer \<Rightarrow> error + indexer" where
  "index_doc dirpath doc self =
     (case doc of (docname, draw) \<Rightarrow>
        if draw < proportion self
        then (let path = path_join dirpath docname in
              case path_split dirpath of (d, lang) \<Rightarrow>
              case path_split d of (d', domain) \<Rightarrow>
              (case getitem (domain_index self) domain of
                 Inl e \<Rightarrow> if e = KeyError then Inr self else Inl e
               | Inr (domain_id, di) \<Rightarrow>
                  (case getitem (lang_index self) lang of
                     Inl e \<Rightarrow> if e = KeyError then Inr (self\<lparr>domain_index := di\<rparr>) else Inl e
                   | Inr (lang_id, li) \<Rightarrow>
                      Inr (self\<lparr>domain_index := di, lang_index := li,
                             coverage_index := coverage_add (coverage_index self) domain lang,
                             items := items self @ [(domain_id, lang_id, docname, path)]\<rparr>))))
        else Inr self)"

text \<open>
  \<^verbatim>\<open>index\<close>: the walk is what \<^verbatim>\<open>os.walk(root, followlinks=True)\<close> gives, the directories
  in its order, each with its files and their random numbers.
\<close>

type_synonym walk = "(string \<times> (string \<times> real) list) list"

definition index :: "indexer \<Rightarrow> walk \<Rightarrow> error + indexer" where
  "index self walk =
     fold_result (\<lambda>(dirpath, filenames). fold_result (index_doc dirpath) filenames) walk self"

text \<open>
  Lines 138-141: \<^verbatim>\<open>lang_domain_count\<close>, a \<^verbatim>\<open>defaultdict(int)\<close>; \<open>count_incr\<close> is
  \<^verbatim>\<open>lang_domain_count[lang] += 1\<close>.
\<close>

fun count_incr :: "string \<Rightarrow> (string \<times> nat) list \<Rightarrow> (string \<times> nat) list" where
  "count_incr lang [] = [(lang, 1)]"
| "count_incr lang ((l, c) # counts) =
     (if l = lang then (l, c + 1) # counts else (l, c) # count_incr lang counts)"

definition lang_domain_count :: "(string \<times> string list) list \<Rightarrow> (string \<times> nat) list" where
  "lang_domain_count coverage = fold (\<lambda>(domain, langs) counts. fold count_incr langs counts) coverage []"

text \<open>Line 147: the ids of the rejected languages, each looked up in \<^verbatim>\<open>self.lang_index\<close>.\<close>

fun lookup_ids :: "string list \<Rightarrow> index_map \<Rightarrow> error + (nat list \<times> index_map)" where
  "lookup_ids [] idx = Inr ([], idx)"
| "lookup_ids (l # ls) idx =
     (case getitem idx l of
        Inl e \<Rightarrow> Inl e
      | Inr (v, idx') \<Rightarrow>
         (case lookup_ids ls idx' of
            Inl e \<Rightarrow> Inl e
          | Inr (vs, idx'') \<Rightarrow> Inr (v # vs, idx'')))"

text \<open>Lines 149-154, the body of the loop over \<^verbatim>\<open>self.lang_index.items()\<close>.\<close>

definition renumber ::
  "nat list \<Rightarrow> string \<times> nat \<Rightarrow> index_map \<times> (nat \<times> nat) list
     \<Rightarrow> error + (index_map \<times> (nat \<times> nat) list)" where
  "renumber reject_ids kv = (\<lambda>(new_index, lm).
     (case kv of (k, v) \<Rightarrow>
        if v \<notin> set reject_ids
        then (case getitem new_index k of
                Inl e \<Rightarrow> Inl e
              | Inr (new_id, new_index') \<Rightarrow> Inr (new_index', dict_set lm v new_id))
        else Inr (new_index, lm)))"

text \<open>Line 157, for one item: kept with the new id when its language id is in \<open>lm\<close>.\<close>

definition remap_items ::
  "(nat \<times> nat) list \<Rightarrow> (nat \<times> nat \<times> string \<times> string) list \<Rightarrow> (nat \<times> nat \<times> string \<times> string) list" where
  "remap_items lm its =
     concat (map (\<lambda>(d, l, n, p). case map_of lm l of None \<Rightarrow> [] | Some l' \<Rightarrow> [(d, l', n, p)]) its)"

definition prune_min_domain :: "indexer \<Rightarrow> int \<Rightarrow> error + indexer" where
  "prune_min_domain self min_domain' =
     (let counts = lang_domain_count (coverage_index self);
          reject_langs = map fst (filter (\<lambda>(l, c). int c < min_domain') counts)
      in if reject_langs \<noteq> []
         then (case lookup_ids reject_langs (lang_index self) of
                 Inl e \<Rightarrow> Inl e
               | Inr (reject_ids, idx) \<Rightarrow>
                  (case index_items idx of
                     Inl e \<Rightarrow> Inl e
                   | Inr kvs \<Rightarrow>
                      (case fold_result (renumber reject_ids) kvs (DefaultDict [] 0, []) of
                         Inl e \<Rightarrow> Inl e
                       | Inr (new_index, lm) \<Rightarrow>
                          Inr (self\<lparr>lang_index := new_index,
                                 items := remap_items lm (items self)\<rparr>))))
         else Inr self)"

text \<open>\<^verbatim>\<open>CorpusIndexer(root, min_domain, proportion, langs, domains)\<close> on a walk of the root.\<close>

definition new_indexer ::
  "string \<Rightarrow> int \<Rightarrow> real \<Rightarrow> string list option \<Rightarrow> string list option \<Rightarrow> indexer" where
  "new_indexer root' min_domain' proportion' langs domains =
     \<lparr>root = root', min_domain = min_domain', proportion = proportion',
      lang_index = new_lang_index langs, domain_index = new_domain_index domains,
      coverage_index = [], items = []\<rparr>"

definition CorpusIndexer ::
  "string \<Rightarrow> int \<Rightarrow> real \<Rightarrow> string list option \<Rightarrow> string list option \<Rightarrow> walk \<Rightarrow> error + indexer" where
  "CorpusIndexer root' min_domain' proportion' langs domains walk =
     (let self = new_indexer root' min_domain' proportion' langs domains
      in case index self walk of
           Inl e \<Rightarrow> Inl e
         | Inr self' \<Rightarrow> prune_min_domain self' (min_domain self'))"

section \<open>Notions used in the proofs\<close>




text \<open>
  The goto function after the loop of lines 94-96, run over the letters that the alphabet
  still holds.
\<close>

definition add_root_loops :: "item list \<Rightarrow> goto_map \<Rightarrow> goto_map" where
  "add_root_loops letters goto =
     fold (\<lambda>a g. if g (0, a) = None then g((0, a) \<mapsto> 0) else g) letters goto"



section \<open>Entering a keyword twice\<close>















section \<open>What build returns\<close>

lemma fold_option_root_loop:
  "fold_option root_loop letters goto = Some (add_root_loops letters goto)"
  by (induction letters arbitrary: goto) (simp_all add: add_root_loops_def root_loop_def)

lemma for_alphabet_root_loop:
  "for_alphabet root_loop alphabet goto = Some (add_root_loops alphabet goto, [])"
  by (simp add: for_alphabet_def fold_option_root_loop)

lemma for_alphabet_empty: "for_alphabet body [] s = Some (s, [])"
  by (simp add: for_alphabet_def)

lemma queue_loop_empty: "queue_loop body [] tabs alphabet = Some (tabs, alphabet)"
  by (simp add: queue_loop.simps)

lemma algorithm3_empty: "algorithm3 goto output [] = Some ((Map.empty, output), [])"
  by (simp add: algorithm3_def for_alphabet_empty queue_loop_empty)

lemma algorithm4_empty: "algorithm4 goto fail [] = Some (Map.empty, [])"
  by (simp add: algorithm4_def for_alphabet_empty queue_loop_empty)

lemma fill_states_empty: "fill_states limit nm states [] cells = (Inr cells, [])"
  by (induction states) simp_all

lemma try_nm_arr_empty: "try_nm_arr nm newstate [] = Some ((Typecode_H, []), [])"
  by (simp add: try_nm_arr_def generate_nm_arr_def fill_states_empty)

lemma build_eq:
  "build alphabet keywords =
     Some (add_root_loops alphabet (fst (algorithm2 keywords)),
           \<lparr>nextmove = Map.empty, outputs = fst (snd (algorithm2 keywords)),
            nm_arr = (Typecode_H, [])\<rparr>,
           [])"
  by (simp add: build_def for_alphabet_root_loop algorithm3_empty algorithm4_empty
        try_nm_arr_empty split: prod.splits)

lemma built_scanner_eq:
  "built_scanner alphabet keywords =
     Some \<lparr>nextmove = Map.empty, outputs = fst (snd (algorithm2 keywords)),
           nm_arr = (Typecode_H, [])\<rparr>"
  by (simp add: built_scanner_def build_eq)

lemma search_empty_array:
  "snd (nm_arr self) = [] \<Longrightarrow>
   search self string =
     ([], case string of
            Bytes bs \<Rightarrow> if bs = [] then None else Some TypeError
          | Str cs \<Rightarrow> if cs = [] then None else Some IndexError)"
proof (cases string)
  case (Bytes bs)
  then show ?thesis by simp
next
  case (Str cs)
  assume "snd (nm_arr self) = []"
  with Str show ?thesis by (cases cs) (simp_all add: Let_def)
qed

lemma scan_eq:
  "scan alphabet keywords string =
     Some ([], case string of
                 Bytes bs \<Rightarrow> if bs = [] then None else Some TypeError
               | Str cs \<Rightarrow> if cs = [] then None else Some IndexError)"
  by (simp add: scan_def built_scanner_eq search_empty_array)

lemma search_letters_cong:
  "nm_arr self' = nm_arr self \<Longrightarrow> outputs self' = outputs self \<Longrightarrow>
   search_letters self' state letters = search_letters self state letters"
  by (induction letters arbitrary: state) (simp_all add: Let_def)

lemma search_cong:
  "nm_arr self' = nm_arr self \<Longrightarrow> outputs self' = outputs self \<Longrightarrow>
   search self' string = search self string"
proof (cases string)
  case (Bytes bs)
  then show ?thesis by simp
next
  case (Str cs)
  assume "nm_arr self' = nm_arr self" and "outputs self' = outputs self"
  then have "search_letters self' 0 cs = search_letters self 0 cs"
    by (rule search_letters_cong)
  with Str show ?thesis by simp
qed

lemma goto_extend_newstate:
  "goto_extend g n s rest = (g', n', s') \<Longrightarrow> n' = n + length rest"
proof (induction rest arbitrary: g n s)
  case Nil
  then show ?case by simp
next
  case (Cons c cs)
  from Cons.prems have "goto_extend (g((s, c) \<mapsto> Suc n)) (Suc n) (Suc n) cs = (g', n', s')"
    by simp
  from Cons.IH[OF this] show ?case by simp
qed

lemma num_states_single: "num_states [k] = length (elements k) + 1"
proof -
  have w: "goto_walk Map.empty 0 (elements k) = (0, elements k)"
    by (cases "elements k") simp_all
  obtain g' n' s' where e: "goto_extend Map.empty 0 0 (elements k) = (g', n', s')"
    by (cases "goto_extend Map.empty 0 0 (elements k)") auto
  from goto_extend_newstate[OF e] have "n' = length (elements k)" by simp
  with w e show ?thesis
    by (simp add: num_states_def algorithm2_def enter_def)
qed

lemma add_root_loops_eq:
  "add_root_loops letters goto (s, a) =
     (if s = 0 \<and> goto (0, a) = None \<and> a \<in> set letters then Some 0 else goto (s, a))"
  unfolding add_root_loops_def
  by (induction letters arbitrary: goto) auto

section \<open>The claims about the scanner\<close>

text \<open>
  The loop of lines 94-96 reads the alphabet that the process shares. The first scanner of
  a process gets the root loops; the scanners after it get none, as the alphabet has been
  used up.
\<close>

lemma build_reads_shared_alphabet:
  "map_option (\<lambda>(goto, self, alphabet'). (goto (0, StrItem 0), alphabet')) (build alphabet0 [])
     = Some (Some 0, [])
   \<and> map_option (\<lambda>(goto, self, alphabet'). (goto (0, StrItem 0), alphabet')) (build [] [])
     = Some (None, [])"
  by (simp add: build_eq add_root_loops_eq algorithm2_def alphabet0_def)



text \<open>
  C3: \<^verbatim>\<open>__setstate__\<close> applied to what \<^verbatim>\<open>__getstate__\<close> gives makes a scanner with the
  same packed array and the same outputs, and \<^verbatim>\<open>search\<close> reads nothing else: on every
  input the restored scanner yields the same keys, and ends in the same way, as the
  original. This holds for every scanner, whatever its number of states, and \<^verbatim>\<open>build\<close>
  gives a scanner for every feature set.
\<close>

theorem getstate_setstate_same_search:
  "search (setstate (getstate self)) string = search self string
   \<and> getstate (setstate (getstate self)) = getstate self
   \<and> (\<exists>built. built_scanner alphabet F = Some built
         \<and> search (setstate (getstate built)) string = search built string)"
proof -
  have n: "nm_arr (setstate (getstate s)) = nm_arr s" for s :: scanner
    by (simp add: setstate_def getstate_def)
  have out: "outputs (setstate (getstate s)) = outputs s" for s :: scanner
    by (simp add: setstate_def getstate_def)
  have s: "search (setstate (getstate s)) string = search s string" for s :: scanner
    by (rule search_cong[OF n out])
  have g: "getstate (setstate (getstate self)) = getstate self"
    using n[of self] out[of self] by (simp add: getstate_def)
  show ?thesis
    using s g by (simp add: built_scanner_eq)
qed

text \<open>
  C1: what the code does. The scanner that \<^verbatim>\<open>build\<close> leaves has an empty packed array,
  so \<^verbatim>\<open>search\<close> yields no key on any input: on \<open>bytes\<close> that are not empty it raises
  \<open>TypeError\<close> at the first byte, on a \<open>str\<close> that is not empty \<open>IndexError\<close> at the first
  character. For the keywords \<open>ab\<close>, \<open>bc\<close>, \<open>abc\<close> and the text \<open>ababc\<close> the keyword \<open>ab\<close>
  occurs twice and is yielded zero times.
\<close>

theorem search_of_built_scanner_yields_nothing:
  "scan alphabet keywords string =
     Some ([], case string of
                 Bytes bs \<Rightarrow> if bs = [] then None else Some TypeError
               | Str cs \<Rightarrow> if cs = [] then None else Some IndexError)
   \<and> scan alphabet0 [Bytes ''ab'', Bytes ''bc'', Bytes ''abc''] (Bytes ''ababc'')
       = Some ([], Some TypeError)
   \<and> map_option (\<lambda>r. yield_count r (Bytes ''ab''))
        (scan alphabet0 [Bytes ''ab'', Bytes ''bc'', Bytes ''abc''] (Bytes ''ababc'')) = Some 0
   \<and> occurrences ''ab'' ''ababc'' = 2"
proof -
  have "occurrences ''ab'' ''ababc'' = 2"
    by (simp add: occurrences_def upt_rec[of _ "numeral _"] upt_rec[of _ "Suc _"])
  then show ?thesis
    by (simp add: scan_eq yield_count_def)
qed

text \<open>
  C2: what the code does. After \<^verbatim>\<open>build\<close> the next-move table \<^verbatim>\<open>self.nextmove\<close> is the
  empty dictionary and the packed array has no cell: there is no entry for the root state
  and any byte.
\<close>

theorem nextmove_of_built_scanner_is_empty:
  "map_option nextmove (built_scanner alphabet keywords) = Some Map.empty
   \<and> map_option (\<lambda>self. nextmove self (0, a)) (built_scanner alphabet keywords) = Some None
   \<and> map_option (\<lambda>self. length (snd (nm_arr self))) (built_scanner alphabet keywords) = Some 0"
  by (simp add: built_scanner_eq)

text \<open>
  C7: what the code does. The packed array that \<^verbatim>\<open>build\<close> leaves is the empty array of
  type \<open>'H'\<close> for every keyword list, also for one of more than \<open>2^16\<close> states: nothing is
  put into the array, so no \<open>OverflowError\<close> is raised and \<open>'L'\<close> is never tried.
\<close>

theorem nm_arr_of_built_scanner_is_empty:
  "map_option nm_arr (built_scanner alphabet keywords) = Some (Typecode_H, [])
   \<and> num_states [Bytes (replicate 65536 CHR ''a'')] = 65537
   \<and> map_option nm_arr (built_scanner alphabet0 [Bytes (replicate 65536 CHR ''a'')])
       = Some (Typecode_H, [])"
  by (simp add: built_scanner_eq num_states_single)

section \<open>Feature files and the task mapper\<close>

lemma consume_closed: "closed f \<Longrightarrow> consume fn f = Inl ValueError"
  by (subst consume.simps) (simp add: file_next_def)

text \<open>
  C8: what the code does. \<^verbatim>\<open>read_features\<close> returns a map object over a file that is
  closed when the function returns, so taking the features read raises \<open>ValueError\<close>,
  whatever was written to the path: no feature is read back.
\<close>

theorem read_features_gives_closed_file:
  "features_round_trip repr eval features path fs = Inl ValueError"
  by (simp add: features_round_trip_def read_features_def write_features_def consume_closed
        del: consume.simps)

text \<open>
  C9: what the code does. With \<open>processes = 1\<close> and no initializer \<^verbatim>\<open>MapPool\<close> raises
  \<open>NameError\<close> at \<^verbatim>\<open>f = imap\<close> and yields no mapper. With \<open>processes\<close> left out it makes a
  pool of \<open>cpu_count + 4\<close> workers and leaves the calling process as it was.
\<close>

theorem MapPool_one_process_raises:
  "MapPool cpu_count (Some 1) None initargs maxtasksperchild chunksize st = Inl NameError
   \<and> MapPool cpu_count None initializer initargs maxtasksperchild chunksize st
       = Inr (PoolImapUnordered (cpu_count + 4) maxtasksperchild chunksize, st)"
  by (simp add: MapPool_def imap_def)

section \<open>The corpus indexer\<close>













text \<open>
  C6: what the code does. With a list of languages \<^verbatim>\<open>lang_index\<close> is a set of pairs, and
  the lookup \<^verbatim>\<open>self.lang_index[lang]\<close> raises \<open>TypeError\<close>, which \<^verbatim>\<open>except KeyError\<close> does
  not catch: the first file that is selected ends the indexing, whether its language is in
  the list or not. With a list of domains the lookup raises \<open>KeyError\<close> and the file is
  skipped.
\<close>

theorem lang_allow_list_raises_TypeError:
  "index_doc dirpath (docname, draw) (new_indexer root' md p (Some langs) None)
     = (if draw < p then Inl TypeError else Inr (new_indexer root' md p (Some langs) None))
   \<and> CorpusIndexer ''corpus'' 1 1 (Some [''en'']) None [(''corpus/web/fr'', [(''doc1'', 0)])]
     = Inl TypeError
   \<and> CorpusIndexer ''corpus'' 1 1 (Some [''en'']) None [(''corpus/web/en'', [(''doc1'', 0)])]
     = Inl TypeError
   \<and> CorpusIndexer ''corpus'' 1 1 None (Some [''web''])
       [(''corpus/news/en'', [(''doc1'', 0)]), (''corpus/web/en'', [(''doc2'', 0)])]
     = Inr \<lparr>root = ''corpus'', min_domain = 1, proportion = 1,
            lang_index = DefaultDict [(''en'', 0)] 1, domain_index = Dict [(''web'', 0)],
            coverage_index = [(''web'', [''en''])],
            items = [(0, 0, ''doc2'', ''corpus/web/en/doc2'')]\<rparr>"
proof -
  have "index_doc dirpath (docname, draw) (new_indexer root' md p (Some langs) None)
     = (if draw < p then Inl TypeError else Inr (new_indexer root' md p (Some langs) None))"
    by (simp add: index_doc_def new_indexer_def new_lang_index_def new_domain_index_def
          split: prod.splits)
  then show ?thesis
    by (simp add: CorpusIndexer_def new_indexer_def index_def index_doc_def path_split_def
        path_join_def new_lang_index_def new_domain_index_def prune_min_domain_def
        lang_domain_count_def renumber_def remap_items_def)
qed

end
